theory Spec2Isabelle
  imports Main
begin

section \<open>Data model of package dlutil\<close>

text \<open>
  The package is a single Go file: the option record \<open>DownloadOptions\<close>, the option
  constructors \<open>WithContext\<close> ... \<open>WithIgnoreStatusCode\<close>, the pipeline \<open>Download\<close>
  and its two wrappers \<open>DownloadBytes\<close> and \<open>DownloadJSON\<close>, the helper
  \<open>matchContentType\<close> and the error type \<open>BadStatusError\<close>.

  Go's \<open>error\<close> interface is a datatype with one constructor for each kind of error value
  that can leave the package. \<open>'e\<close> is the caller's structured error type, the type
  argument of \<open>WithErrorType[T]\<close>.
\<close>

datatype 'e error =
    BadStatusError int         \<comment> \<open>\<open>&BadStatusError{StatusCode: n}\<close>\<close>
  | ErrorString string         \<comment> \<open>\<open>errors.New(s)\<close>\<close>
  | StructuredError 'e         \<comment> \<open>a decoded value of the type argument of \<open>WithErrorType\<close>\<close>
  | ExternalError string       \<comment> \<open>an error made by a collaborator: transport, reader, decoder\<close>
  | NilPointerPanic            \<comment> \<open>not an error value: the run-time panic of a call through a nil \<open>*http.Client\<close>\<close>

text \<open>
  \<open>context.Context\<close> and \<open>*http.Client\<close> are opaque handles; \<open>None\<close> is Go's \<open>nil\<close>.
  \<open>Background\<close> is \<open>context.Background()\<close>, \<open>DefaultClient\<close> is \<open>http.DefaultClient\<close>.
\<close>

datatype Context = Background | UserContext nat

datatype client = DefaultClient | UserClient nat

type_synonym cache_ref = nat

type_synonym Duration = int

text \<open>
  An \<open>io.ReadCloser\<close>. A response body is a stream with an identity (so that closing it
  can be observed), the bytes it delivers and, when reading breaks off, the message of the
  read error that follows these bytes. \<open>NopCloser s\<close> is
  \<open>io.NopCloser(strings.NewReader(s))\<close>: an in-memory stream whose \<open>Close\<close> does nothing.
\<close>

datatype ReadCloser =
    ResponseBody nat string "string option"
  | NopCloser string

text \<open>\<open>io.ReadAll\<close>: the bytes read, and the error unless the stream ended with EOF.\<close>

fun ReadAll :: "ReadCloser \<Rightarrow> string \<times> string option" where
  "ReadAll (ResponseBody i bs failure) = (bs, failure)"
| "ReadAll (NopCloser s) = (s, None)"

text \<open>
  \<open>http.Header\<close> is \<open>map[string][]string\<close>. The nil map and the empty map are both
  \<open>Map.empty\<close>: the code reads a nil map only (\<open>range\<close>), and \<open>WithHeader\<close> allocates
  before it writes. The methods canonicalise the key with
  \<open>textproto.CanonicalMIMEHeaderKey\<close>, a function of the standard library taken here as
  the parameter \<open>canon\<close>.
\<close>

type_synonym Header = "string \<rightharpoonup> string list"

definition Header_Values :: "(string \<Rightarrow> string) \<Rightarrow> Header \<Rightarrow> string \<Rightarrow> string list" where
  "Header_Values canon h key = (case h (canon key) of None \<Rightarrow> [] | Some vs \<Rightarrow> vs)"

definition Header_Get :: "(string \<Rightarrow> string) \<Rightarrow> Header \<Rightarrow> string \<Rightarrow> string" where
  "Header_Get canon h key =
     (case h (canon key) of None \<Rightarrow> [] | Some [] \<Rightarrow> [] | Some (v # vs) \<Rightarrow> v)"

definition Header_Set :: "(string \<Rightarrow> string) \<Rightarrow> Header \<Rightarrow> string \<Rightarrow> string \<Rightarrow> Header" where
  "Header_Set canon h key v = h(canon key \<mapsto> [v])"

definition Header_Add :: "(string \<Rightarrow> string) \<Rightarrow> Header \<Rightarrow> string \<Rightarrow> string \<Rightarrow> Header" where
  "Header_Add canon h key v = h(canon key \<mapsto> Header_Values canon h key @ [v])"

record request =
  req_Ctx :: Context
  req_Method :: string
  req_URL :: string
  req_Body :: "string option"
  req_Header :: Header

record response =
  resp_StatusCode :: int
  resp_Header :: Header
  resp_Body :: ReadCloser

record 'e DownloadOptions =
  Ctx :: "Context option"
  Client :: "client option"
  Cache :: "cache_ref option"
  CacheKey :: string
  CacheTTL :: Duration
  GenError :: "(ReadCloser \<Rightarrow> int \<Rightarrow> 'e error) option"
  Method :: string
  Body :: "string option"
  BodyContentType :: string
  Header :: Header
  AcceptContentType :: string
  IgnoreStatusCode :: bool

type_synonym 'e DownloadOption = "'e DownloadOptions \<Rightarrow> 'e DownloadOptions"

text \<open>\<open>json.NewDecoder(r).Decode(&v)\<close> for one target type: the decoded value or the error.\<close>

type_synonym ('e, 'a) decoder = "ReadCloser \<Rightarrow> 'e error + 'a"

section \<open>The collaborators\<close>

text \<open>
  What the package calls and does not define: the cache behind the interface
  \<open>razcache.Cache\<close> (its state is \<open>'c\<close>; the error that \<open>Set\<close> returns is dropped by the
  caller, so \<open>cache_Set\<close> gives the new state only), \<open>http.NewRequestWithContext\<close>,
  \<open>(*http.Client).Do\<close>, the first result of \<open>mime.ParseMediaType\<close> (the other two are
  dropped by the caller), \<open>http.StatusText\<close> and \<open>textproto.CanonicalMIMEHeaderKey\<close>.
\<close>

record ('c, 'e) env =
  cache_Get :: "'c \<Rightarrow> string \<Rightarrow> 'e error + string"
  cache_Set :: "'c \<Rightarrow> string \<Rightarrow> string \<Rightarrow> Duration \<Rightarrow> 'c"
  NewRequestWithContext :: "Context option \<Rightarrow> string \<Rightarrow> string \<Rightarrow> string option \<Rightarrow> 'e error + request"
  client_Do :: "client \<Rightarrow> request \<Rightarrow> 'e error + response"
  ParseMediaType :: "string \<Rightarrow> string"
  StatusText :: "int \<Rightarrow> string"
  CanonicalMIMEHeaderKey :: "string \<Rightarrow> string"

text \<open>
  The effects of a call that a caller can observe: the state of every cache, and the log
  of the calls made to the caches, to the transport and to \<open>Close\<close> of a response body,
  oldest first.
\<close>

datatype event =
    CacheGet cache_ref string
  | CacheSet cache_ref string string Duration
  | ClientDo client request
  | CloseBody nat

record 'c world =
  caches :: "cache_ref \<Rightarrow> 'c"
  events :: "event list"

definition emit :: "event \<Rightarrow> 'c world \<Rightarrow> 'c world" where
  "emit ev w = w\<lparr>events := events w @ [ev]\<rparr>"

fun Close :: "ReadCloser \<Rightarrow> 'c world \<Rightarrow> 'c world" where
  "Close (ResponseBody i bs failure) w = emit (CloseBody i) w"
| "Close (NopCloser s) w = w"

section \<open>BadStatusError\<close>

text \<open>\<open>fmt.Sprintf("%d", n)\<close>: the decimal digits, with a minus sign below zero.\<close>

fun digits :: "nat \<Rightarrow> string" where
  "digits n = (if n < 10 then [char_of (48 + n)] else digits (n div 10) @ [char_of (48 + n mod 10)])"

definition Sprintf_d :: "int \<Rightarrow> string" where
  "Sprintf_d n = (if n < 0 then CHR ''-'' # digits (nat (- n)) else digits (nat n))"

definition BadStatus :: "int \<Rightarrow> 'e error" where
  "BadStatus statusCode = BadStatusError statusCode"

text \<open>The method \<open>Error\<close> of \<open>BadStatusError\<close>: \<open>fmt.Sprintf("%d %s", code, http.StatusText(code))\<close>.\<close>

definition BadStatusError_Error :: "('c, 'e) env \<Rightarrow> int \<Rightarrow> string" where
  "BadStatusError_Error env statusCode = Sprintf_d statusCode @ '' '' @ StatusText env statusCode"

section \<open>The options\<close>

definition DefaultDownloadOptions :: "'e DownloadOptions" where
  "DefaultDownloadOptions =
     \<lparr> Ctx = Some Background, Client = Some DefaultClient, Cache = None, CacheKey = [],
       CacheTTL = 0, GenError = None, Method = ''GET'', Body = None, BodyContentType = [],
       Header = Map.empty, AcceptContentType = [], IgnoreStatusCode = False \<rparr>"

definition WithContext :: "Context option \<Rightarrow> 'e DownloadOption" where
  "WithContext ctx = (\<lambda>do. case ctx of None \<Rightarrow> do\<lparr>Ctx := Some Background\<rparr>
                                     | Some c \<Rightarrow> do\<lparr>Ctx := Some c\<rparr>)"

definition WithClient :: "client option \<Rightarrow> 'e DownloadOption" where
  "WithClient cl = (\<lambda>do. case cl of None \<Rightarrow> do\<lparr>Client := Some DefaultClient\<rparr>
                                   | Some c \<Rightarrow> do\<lparr>Client := Some c\<rparr>)"

definition WithCache :: "cache_ref option \<Rightarrow> string \<Rightarrow> Duration \<Rightarrow> 'e DownloadOption" where
  "WithCache cache key ttl = (\<lambda>do. do\<lparr>Cache := cache, CacheKey := key, CacheTTL := ttl\<rparr>)"

text \<open>
  \<open>WithErrorType[T]\<close>; the parameter is the JSON decoder of \<open>T\<close>. The function it installs
  decodes the body into a \<open>T\<close> and falls back to \<open>BadStatus(code)\<close> when decoding fails.
\<close>

definition WithErrorType :: "('e, 'e) decoder \<Rightarrow> 'e DownloadOption" where
  "WithErrorType decode =
     (\<lambda>do. do\<lparr>GenError := Some (\<lambda>r code. case decode r of
                                              Inl err \<Rightarrow> BadStatus code
                                            | Inr result \<Rightarrow> StructuredError result)\<rparr>)"

definition WithMethod :: "string \<Rightarrow> 'e DownloadOption" where
  "WithMethod method = (\<lambda>do. do\<lparr>Method := method\<rparr>)"

definition WithBody :: "string option \<Rightarrow> string \<Rightarrow> 'e DownloadOption" where
  "WithBody body contentType = (\<lambda>do. do\<lparr>Body := body, BodyContentType := contentType\<rparr>)"

text \<open>
  \<open>WithHeader(key, value0, values...)\<close>: \<open>Header.Set(key, value0)\<close>, then \<open>Header.Add\<close>
  for each further value, in order.
\<close>

definition WithHeader :: "(string \<Rightarrow> string) \<Rightarrow> string \<Rightarrow> string \<Rightarrow> string list \<Rightarrow> 'e DownloadOption" where
  "WithHeader canon key value0 values =
     (\<lambda>do. do\<lparr>Header := foldl (\<lambda>h v. Header_Add canon h key v) (Header_Set canon (Header do) key value0) values\<rparr>)"

text \<open>\<open>WithFakeUserAgent\<close>; the parameter is what \<open>fakeuseragent.RandomUserAgent()\<close> returned.\<close>

definition WithFakeUserAgent :: "(string \<Rightarrow> string) \<Rightarrow> string \<Rightarrow> 'e DownloadOption" where
  "WithFakeUserAgent canon randomUserAgent = WithHeader canon ''User-Agent'' randomUserAgent []"

definition WithAcceptContentType :: "string \<Rightarrow> 'e DownloadOption" where
  "WithAcceptContentType contentType = (\<lambda>do. do\<lparr>AcceptContentType := contentType\<rparr>)"

definition WithIgnoreStatusCode :: "'e DownloadOption" where
  "WithIgnoreStatusCode = (\<lambda>do. do\<lparr>IgnoreStatusCode := True\<rparr>)"

text \<open>The loop \<open>for _, o := range o { o(&opts) }\<close> over a copy of the defaults.\<close>

definition apply_options :: "'e DownloadOption list \<Rightarrow> 'e DownloadOptions" where
  "apply_options os = foldl (\<lambda>opts opt. opt opts) DefaultDownloadOptions os"

section \<open>The retrieval pipeline\<close>

definition matchContentType :: "('c, 'e) env \<Rightarrow> response \<Rightarrow> string \<Rightarrow> bool" where
  "matchContentType env resp contentType =
     (let parsedType = ParseMediaType env
            (Header_Get (CanonicalMIMEHeaderKey env) (resp_Header resp) ''Content-Type'')
      in contentType = parsedType)"

text \<open>
  \<open>Download\<close> is one Go function. It is embedded in three parts that follow its text in
  order, each taking the world and returning it updated, and \<open>Download\<close> chains them.

  First part, the lookup: \<open>if opts.Cache != nil { content, err := opts.Cache.Get(opts.CacheKey);
  if err == nil { return ... } }\<close>. The result is the cached content on a hit.
\<close>

definition cache_lookup :: "('c, 'e) env \<Rightarrow> 'e DownloadOptions \<Rightarrow> 'c world \<Rightarrow> string option \<times> 'c world" where
  "cache_lookup env opts w =
     (case Cache opts of
        None \<Rightarrow> (None, w)
      | Some c \<Rightarrow>
          (case cache_Get env (caches w c) (CacheKey opts) of
             Inl err \<Rightarrow> (None, emit (CacheGet c (CacheKey opts)) w)
           | Inr content \<Rightarrow> (Some content, emit (CacheGet c (CacheKey opts)) w)))"

text \<open>
  Second part, the exchange: the request is built, the configured headers are copied into
  it key by key, \<open>Content-Type\<close> is overwritten when a body content type is configured, and
  the client sends it. A nil client panics at \<open>opts.Client.Do(req)\<close>.
\<close>

definition exchange :: "('c, 'e) env \<Rightarrow> string \<Rightarrow> 'e DownloadOptions \<Rightarrow> 'c world \<Rightarrow> ('e error + response) \<times> 'c world" where
  "exchange env url opts w =
     (case NewRequestWithContext env (Ctx opts) (Method opts) url (Body opts) of
        Inl err \<Rightarrow> (Inl err, w)
      | Inr req0 \<Rightarrow>
          (let req1 = req0\<lparr>req_Header := req_Header req0 ++ Header opts\<rparr>;
               req = (if 0 < length (BodyContentType opts)
                      then req1\<lparr>req_Header := Header_Set (CanonicalMIMEHeaderKey env) (req_Header req1)
                                                  ''Content-Type'' (BodyContentType opts)\<rparr>
                      else req1)
           in case Client opts of
                None \<Rightarrow> (Inl NilPointerPanic, w)
              | Some cl \<Rightarrow> (client_Do env cl req, emit (ClientDo cl req) w)))"

text \<open>
  Third part, from \<open>body := resp.Body\<close> to the end: the status check with its two exits,
  the check of the accepted content type, and the write to the cache. The last block,
  \<open>if opts.Cache != nil { ... }; return body, nil\<close>, is \<open>write_through\<close>.
\<close>

definition write_through :: "('c, 'e) env \<Rightarrow> 'e DownloadOptions \<Rightarrow> ReadCloser \<Rightarrow> 'c world \<Rightarrow> ('e error + ReadCloser) \<times> 'c world" where
  "write_through env opts body w =
     (case Cache opts of
        None \<Rightarrow> (Inr body, w)
      | Some c \<Rightarrow>
          (case ReadAll body of
             (content, Some err) \<Rightarrow> (Inl (ExternalError err), Close body w)
           | (content, None) \<Rightarrow>
               (Inr (NopCloser content),
                emit (CacheSet c (CacheKey opts) content (CacheTTL opts))
                  (w\<lparr>caches := (caches w)
                       (c := cache_Set env (caches w c) (CacheKey opts) content (CacheTTL opts))\<rparr>))))"

definition classify :: "('c, 'e) env \<Rightarrow> 'e DownloadOptions \<Rightarrow> response \<Rightarrow> 'c world \<Rightarrow> ('e error + ReadCloser) \<times> 'c world" where
  "classify env opts resp w =
     (let body = resp_Body resp;
          code = resp_StatusCode resp;
          genError = (case GenError opts of
                        None \<Rightarrow> None
                      | Some gen \<Rightarrow> if matchContentType env resp ''application/json'' then Some gen else None);
          accepted =
            (if 0 < length (AcceptContentType opts) \<and> \<not> matchContentType env resp (AcceptContentType opts)
             then (Inl (ErrorString (''bad content-type: '' @
                      Header_Get (CanonicalMIMEHeaderKey env) (resp_Header resp) ''Content-Type'')),
                   Close body w)
             else write_through env opts body w)
      in if code < 200 \<or> 400 \<le> code
         then (case genError of
                 Some gen \<Rightarrow> (Inl (gen body code), Close body w)
               | None \<Rightarrow>
                   if \<not> IgnoreStatusCode opts
                   then (Inl (BadStatus code), Close body w)
                   else accepted)
         else accepted)"

definition Download :: "('c, 'e) env \<Rightarrow> 'c world \<Rightarrow> string \<Rightarrow> 'e DownloadOption list \<Rightarrow> ('e error + ReadCloser) \<times> 'c world" where
  "Download env w url os =
     (let opts = apply_options os in
      case cache_lookup env opts w of
        (Some content, w1) \<Rightarrow> (Inr (NopCloser content), w1)
      | (None, w1) \<Rightarrow>
          (case exchange env url opts w1 of
             (Inl err, w2) \<Rightarrow> (Inl err, w2)
           | (Inr resp, w2) \<Rightarrow> classify env opts resp w2))"

definition DownloadBytes :: "('c, 'e) env \<Rightarrow> 'c world \<Rightarrow> string \<Rightarrow> 'e DownloadOption list \<Rightarrow> ('e error + string) \<times> 'c world" where
  "DownloadBytes env w url os =
     (case Download env w url os of
        (Inl err, w1) \<Rightarrow> (Inl err, w1)
      | (Inr body, w1) \<Rightarrow>
          (case ReadAll body of
             (content, Some err) \<Rightarrow> (Inl (ExternalError err), Close body w1)
           | (content, None) \<Rightarrow> (Inr content, Close body w1)))"

text \<open>\<open>DownloadJSON[T]\<close>; the first parameter is the JSON decoder of \<open>T\<close>.\<close>

definition DownloadJSON :: "('e, 'a) decoder \<Rightarrow> ('c, 'e) env \<Rightarrow> 'c world \<Rightarrow> string \<Rightarrow> 'e DownloadOption list \<Rightarrow> ('e error + 'a) \<times> 'c world" where
  "DownloadJSON decode env w url os =
     (case Download env w url (os @ [WithAcceptContentType ''application/json'']) of
        (Inl err, w1) \<Rightarrow> (Inl err, w1)
      | (Inr body, w1) \<Rightarrow>
          (case decode body of
             Inl err \<Rightarrow> (Inl err, Close body w1)
           | Inr result \<Rightarrow> (Inr result, Close body w1)))"

text \<open>
  The call has a network response in hand: the lookup missed (or no cache is configured)
  and the exchange returned \<open>resp\<close>, leaving the world \<open>w2\<close>.
\<close>

definition obtains_response :: "('c, 'e) env \<Rightarrow> 'c world \<Rightarrow> string \<Rightarrow> 'e DownloadOption list \<Rightarrow> response \<Rightarrow> 'c world \<Rightarrow> bool" where
  "obtains_response env w url os resp w2 =
     (fst (cache_lookup env (apply_options os) w) = None \<and>
      exchange env url (apply_options os) (snd (cache_lookup env (apply_options os) w)) = (Inr resp, w2))"

text \<open>
  The JSON entry point as the specification words it: the plain retrieval with a
  "require application/json" mutator appended after the caller's mutators, then the JSON
  decoding of the body; a failure of the retrieval is handed on as it is.
\<close>

definition retrieveJSON_spec :: "('e, 'a) decoder \<Rightarrow> ('c, 'e) env \<Rightarrow> 'c world \<Rightarrow> string \<Rightarrow> 'e DownloadOption list \<Rightarrow> 'e error + 'a" where
  "retrieveJSON_spec decode env w url mutators =
     (case fst (Download env w url (mutators @ [WithAcceptContentType ''application/json''])) of
        Inl failure \<Rightarrow> Inl failure
      | Inr body \<Rightarrow> decode body)"

section \<open>The exported option constructors\<close>

text \<open>
  A \<open>DownloadOption\<close> is any function on the options. The ones the package exports are its
  ten \<open>With...\<close> functions; a call of one of them, with its arguments, is a value of
  \<open>option_call\<close>, and \<open>option_of\<close> is the option that the call returns.
\<close>

datatype 'e option_call =
    Call_WithContext "Context option"
  | Call_WithClient "client option"
  | Call_WithCache "cache_ref option" string Duration
  | Call_WithErrorType "('e, 'e) decoder"
  | Call_WithMethod string
  | Call_WithBody "string option" string
  | Call_WithHeader string string "string list"
  | Call_WithFakeUserAgent string
  | Call_WithAcceptContentType string
  | Call_WithIgnoreStatusCode

fun option_of :: "(string \<Rightarrow> string) \<Rightarrow> 'e option_call \<Rightarrow> 'e DownloadOption" where
  "option_of canon (Call_WithContext ctx) = WithContext ctx"
| "option_of canon (Call_WithClient cl) = WithClient cl"
| "option_of canon (Call_WithCache cache key ttl) = WithCache cache key ttl"
| "option_of canon (Call_WithErrorType decode) = WithErrorType decode"
| "option_of canon (Call_WithMethod method) = WithMethod method"
| "option_of canon (Call_WithBody body contentType) = WithBody body contentType"
| "option_of canon (Call_WithHeader key value0 values) = WithHeader canon key value0 values"
| "option_of canon (Call_WithFakeUserAgent randomUserAgent) = WithFakeUserAgent canon randomUserAgent"
| "option_of canon (Call_WithAcceptContentType contentType) = WithAcceptContentType contentType"
| "option_of canon Call_WithIgnoreStatusCode = WithIgnoreStatusCode"

text \<open>The events that are calls to a cache.\<close>

fun is_cache_event :: "event \<Rightarrow> bool" where
  "is_cache_event (CacheGet c key) = True"
| "is_cache_event (CacheSet c key content ttl) = True"
| "is_cache_event (ClientDo cl req) = False"
| "is_cache_event (CloseBody i) = False"

section \<open>Test doubles\<close>

text \<open>
  Concrete collaborators for the instances below: a cache held in memory as a map from key
  to content and time to live, a request constructor that refuses only a nil context, a
  transport that answers every request with one fixed response, a media type parser that
  cuts the header value at the first semicolon, and three entries of the status text table.
\<close>

definition memory_Get :: "(string \<rightharpoonup> string \<times> Duration) \<Rightarrow> string \<Rightarrow> 'e error + string" where
  "memory_Get m key = (case m key of None \<Rightarrow> Inl (ExternalError ''not found'') | Some (content, ttl) \<Rightarrow> Inr content)"

definition memory_Set :: "(string \<rightharpoonup> string \<times> Duration) \<Rightarrow> string \<Rightarrow> string \<Rightarrow> Duration \<Rightarrow> (string \<rightharpoonup> string \<times> Duration)" where
  "memory_Set m key content ttl = m(key \<mapsto> (content, ttl))"

definition plain_NewRequest :: "Context option \<Rightarrow> string \<Rightarrow> string \<Rightarrow> string option \<Rightarrow> 'e error + request" where
  "plain_NewRequest ctx method url body =
     (case ctx of
        None \<Rightarrow> Inl (ExternalError ''net/http: nil Context'')
      | Some c \<Rightarrow> Inr \<lparr> req_Ctx = c, req_Method = method, req_URL = url, req_Body = body, req_Header = Map.empty \<rparr>)"

definition cut_parameters :: "string \<Rightarrow> string" where
  "cut_parameters v = takeWhile (\<lambda>c. c \<noteq> CHR '';'') v"

definition some_StatusText :: "int \<Rightarrow> string" where
  "some_StatusText code =
     (if code = 200 then ''OK'' else if code = 404 then ''Not Found''
      else if code = 500 then ''Internal Server Error'' else [])"

definition fake_env :: "response \<Rightarrow> (string \<rightharpoonup> string \<times> Duration, 'e) env" where
  "fake_env resp =
     \<lparr> cache_Get = memory_Get, cache_Set = memory_Set, NewRequestWithContext = plain_NewRequest,
       client_Do = (\<lambda>cl req. Inr resp), ParseMediaType = cut_parameters,
       StatusText = some_StatusText, CanonicalMIMEHeaderKey = (\<lambda>key. key) \<rparr>"

definition fresh_world :: "(string \<rightharpoonup> string \<times> Duration) world" where
  "fresh_world = \<lparr> caches = (\<lambda>c. Map.empty), events = [] \<rparr>"

definition reply :: "int \<Rightarrow> string \<Rightarrow> ReadCloser \<Rightarrow> response" where
  "reply code contentType body =
     \<lparr> resp_StatusCode = code, resp_Header = [''Content-Type'' \<mapsto> [contentType]], resp_Body = body \<rparr>"

text \<open>A JSON decoder double: it accepts the text \<open>7\<close> and nothing else.\<close>

definition seven_decoder :: "('e, nat) decoder" where
  "seven_decoder r =
     (if ReadAll r = (''7'', None) then Inr 7 else Inl (ExternalError ''invalid character''))"

definition sent_request :: request where
  "sent_request = \<lparr> req_Ctx = Background, req_Method = ''GET'', req_URL = ''https://x/w'',
                     req_Body = None, req_Header = Map.empty \<rparr>"

section \<open>Properties\<close>

subsection \<open>Shared facts\<close>

lemma Download_obtained:
  "obtains_response env w url os resp w2 \<Longrightarrow>
     Download env w url os = classify env (apply_options os) resp w2"
  by (auto simp: obtains_response_def Download_def Let_def
           split: prod.splits option.splits sum.splits)

lemma apply_options_snoc: "apply_options (os @ [opt]) = opt (apply_options os)"
  by (simp add: apply_options_def)

lemma write_through_no_cache:
  "Cache opts = None \<Longrightarrow> write_through env opts body w = (Inr body, w)"
  by (simp add: write_through_def)

lemma write_through_stored:
  "Cache opts = Some c \<Longrightarrow> ReadAll body = (content, None) \<Longrightarrow>
     write_through env opts body w
       = (Inr (NopCloser content),
          emit (CacheSet c (CacheKey opts) content (CacheTTL opts))
            (w\<lparr>caches := (caches w)
                 (c := cache_Set env (caches w c) (CacheKey opts) content (CacheTTL opts))\<rparr>))"
  by (simp add: write_through_def)

lemma write_through_read_error:
  "Cache opts = Some c \<Longrightarrow> ReadAll body = (content, Some msg) \<Longrightarrow>
     write_through env opts body w = (Inl (ExternalError msg), Close body w)"
  by (simp add: write_through_def)

lemma write_through_cases:
  obtains (no_cache) "Cache opts = None"
  | (stored) c content where "Cache opts = Some c" "ReadAll body = (content, None)"
  | (read_error) c content msg where "Cache opts = Some c" "ReadAll body = (content, Some msg)"
  by (cases "Cache opts"; cases "ReadAll body"; cases "snd (ReadAll body)") auto

lemma write_through_not_ErrorString:
  "fst (write_through env opts body w) \<noteq> Inl (ErrorString s)"
  by (rule write_through_cases [where opts = opts and body = body])
     (simp_all add: write_through_no_cache write_through_stored write_through_read_error)

lemma write_through_GenError:
  "write_through env (opts\<lparr>GenError := g\<rparr>) body w = write_through env opts body w"
  by (rule write_through_cases [where opts = opts and body = body])
     (simp_all add: write_through_no_cache write_through_stored write_through_read_error)

lemma classify_without_factory:
  assumes "\<not> matchContentType env resp ''application/json''"
  shows "classify env opts resp w = classify env (opts\<lparr>GenError := None\<rparr>) resp w"
  using assms
  by (cases "GenError opts") (simp_all add: classify_def Let_def write_through_GenError)

lemma classify_mismatch_fails:
  assumes "AcceptContentType opts \<noteq> []"
    and "\<not> matchContentType env resp (AcceptContentType opts)"
  shows "\<exists>err. fst (classify env opts resp w) = Inl err"
  using assms
  by (cases "GenError opts") (auto simp: classify_def Let_def)

lemma classify_let_through:
  assumes "(200 \<le> resp_StatusCode resp \<and> resp_StatusCode resp < 400)
            \<or> (IgnoreStatusCode opts \<and>
                (GenError opts = None \<or> \<not> matchContentType env resp ''application/json''))"
  shows "classify env opts resp w =
           (if AcceptContentType opts = [] \<or> matchContentType env resp (AcceptContentType opts)
            then write_through env opts (resp_Body resp) w
            else (Inl (ErrorString (''bad content-type: '' @
                      Header_Get (CanonicalMIMEHeaderKey env) (resp_Header resp) ''Content-Type'')),
                  Close (resp_Body resp) w))"
  using assms
  by (cases "GenError opts") (auto simp: classify_def Let_def)

lemma cache_lookup_no_cache:
  "Cache opts = None \<Longrightarrow> cache_lookup env opts w = (None, w)"
  by (simp add: cache_lookup_def)

lemma cache_lookup_miss:
  "Cache opts = Some c \<Longrightarrow> fst (cache_lookup env opts w) = None \<Longrightarrow>
     cache_lookup env opts w = (None, emit (CacheGet c (CacheKey opts)) w)"
  by (simp add: cache_lookup_def split: sum.splits)

lemma cache_lookup_hit:
  "Cache opts = Some c \<Longrightarrow> cache_Get env (caches w c) (CacheKey opts) = Inr content \<Longrightarrow>
     cache_lookup env opts w = (Some content, emit (CacheGet c (CacheKey opts)) w)"
  by (simp add: cache_lookup_def)

lemma Download_hit:
  "Cache (apply_options os) = Some c \<Longrightarrow>
   cache_Get env (caches w c) (CacheKey (apply_options os)) = Inr content \<Longrightarrow>
     Download env w url os
       = (Inr (NopCloser content), emit (CacheGet c (CacheKey (apply_options os))) w)"
  by (simp add: Download_def cache_lookup_hit)

lemma Download_miss:
  "fst (cache_lookup env (apply_options os) w) = None \<Longrightarrow>
     Download env w url os =
       (case exchange env url (apply_options os) (snd (cache_lookup env (apply_options os) w)) of
          (Inl err, w2) \<Rightarrow> (Inl err, w2)
        | (Inr resp, w2) \<Rightarrow> classify env (apply_options os) resp w2)"
  by (cases "cache_lookup env (apply_options os) w") (simp add: Download_def Let_def)

lemma exchange_Inr:
  "exchange env url opts w = (Inr resp, w2) \<Longrightarrow> \<exists>cl req. w2 = emit (ClientDo cl req) w"
  by (auto simp: exchange_def Let_def split: sum.splits option.splits if_splits)

lemma exchange_world:
  "snd (exchange env url opts w) = w \<or> (\<exists>cl req. snd (exchange env url opts w) = emit (ClientDo cl req) w)"
  by (auto simp: exchange_def Let_def split: sum.splits option.splits if_splits)

lemma classify_Inr:
  "classify env opts resp w = (Inr body, w1) \<Longrightarrow>
     write_through env opts (resp_Body resp) w = (Inr body, w1)"
  by (auto simp: classify_def Let_def split: if_splits option.splits)

lemma write_through_Inr:
  assumes "Cache opts = Some c" and "write_through env opts b w = (Inr body, w1)"
  shows "\<exists>content. body = NopCloser content \<and>
           w1 = emit (CacheSet c (CacheKey opts) content (CacheTTL opts))
                  (w\<lparr>caches := (caches w)
                       (c := cache_Set env (caches w c) (CacheKey opts) content (CacheTTL opts))\<rparr>)"
  using assms
  by (rule_tac write_through_cases [where opts = opts and body = b])
     (auto simp: write_through_stored write_through_read_error)

lemma classify_failure_closes:
  "classify env opts resp w = (Inl err, w') \<Longrightarrow> w' = Close (resp_Body resp) w"
  by (rule write_through_cases [where opts = opts and body = "resp_Body resp"])
     (auto simp: classify_def Let_def write_through_no_cache write_through_stored
        write_through_read_error split: if_splits option.splits)

lemma Download_success_after_miss:
  assumes cfg: "Cache (apply_options os) = Some c"
    and miss: "fst (cache_lookup env (apply_options os) w) = None"
    and first: "Download env w url os = (Inr body, w1)"
  shows "\<exists>cl req content.
           body = NopCloser content
         \<and> w1 = emit (CacheSet c (CacheKey (apply_options os)) content (CacheTTL (apply_options os)))
                  ((emit (ClientDo cl req) (emit (CacheGet c (CacheKey (apply_options os))) w))
                     \<lparr>caches := (caches w)
                        (c := cache_Set env (caches w c) (CacheKey (apply_options os)) content
                                (CacheTTL (apply_options os)))\<rparr>)"
proof -
  let ?opts = "apply_options os"
  let ?w0 = "emit (CacheGet c (CacheKey ?opts)) w"
  have lookup: "cache_lookup env ?opts w = (None, ?w0)"
    using cache_lookup_miss [OF cfg miss] .
  obtain r w2 where ex: "exchange env url ?opts ?w0 = (r, w2)"
    by (cases "exchange env url ?opts ?w0")
  have dl: "Download env w url os =
              (case r of Inl err \<Rightarrow> (Inl err, w2) | Inr resp \<Rightarrow> classify env ?opts resp w2)"
    using Download_miss [OF miss, of url] lookup ex by simp
  from dl first obtain resp where r: "r = Inr resp"
    and cl: "classify env ?opts resp w2 = (Inr body, w1)"
    by (cases r) auto
  from ex r obtain cl req where w2: "w2 = emit (ClientDo cl req) ?w0"
    using exchange_Inr by blast
  from write_through_Inr [OF cfg classify_Inr [OF cl]]
  obtain content where "body = NopCloser content"
    and "w1 = emit (CacheSet c (CacheKey ?opts) content (CacheTTL ?opts))
                  (w2\<lparr>caches := (caches w2)
                       (c := cache_Set env (caches w2 c) (CacheKey ?opts) content (CacheTTL ?opts))\<rparr>)"
    by blast
  then show ?thesis
    using w2 by (auto simp: emit_def)
qed

lemma exchange_events:
  "\<exists>es. events (snd (exchange env url opts w)) = events w @ es
        \<and> filter is_cache_event es = []"
  using exchange_world [of env url opts w]
  by (auto simp: emit_def)

lemma classify_events:
  "\<exists>es. events (snd (classify env opts resp w)) = events w @ es"
  by (rule write_through_cases [where opts = opts and body = "resp_Body resp"];
      cases "resp_Body resp")
     (auto simp: classify_def Let_def emit_def write_through_no_cache write_through_stored
        write_through_read_error split: option.splits)

lemma classify_no_cache_events:
  "Cache opts = None \<Longrightarrow>
     filter is_cache_event (events (snd (classify env opts resp w))) = filter is_cache_event (events w)"
  by (cases "resp_Body resp")
     (auto simp: classify_def Let_def emit_def write_through_no_cache split: option.splits)

lemma Download_events_after_lookup:
  "\<exists>es. events (snd (Download env w url os))
          = events (snd (cache_lookup env (apply_options os) w)) @ es"
proof (cases "cache_lookup env (apply_options os) w")
  case (Pair hit w0)
  show ?thesis
  proof (cases hit)
    case (Some content)
    with Pair show ?thesis by (simp add: Download_def)
  next
    case None
    obtain r w2 where ex: "exchange env url (apply_options os) w0 = (r, w2)"
      by (cases "exchange env url (apply_options os) w0")
    from exchange_events [of env url "apply_options os" w0] ex
    obtain es where es: "events w2 = events w0 @ es" by auto
    show ?thesis
    proof (cases r)
      case (Inl err)
      with Pair None ex es show ?thesis by (simp add: Download_def)
    next
      case (Inr resp)
      from classify_events [of env "apply_options os" resp w2]
      obtain es' where "events (snd (classify env (apply_options os) resp w2)) = events w2 @ es'"
        by blast
      with Pair None ex es Inr show ?thesis by (simp add: Download_def)
    qed
  qed
qed

lemma Download_no_cache_events:
  assumes "Cache (apply_options os) = None"
  shows "filter is_cache_event (events (snd (Download env w url os)))
           = filter is_cache_event (events w)"
proof -
  let ?opts = "apply_options os"
  have lookup: "cache_lookup env ?opts w = (None, w)"
    using assms by (rule cache_lookup_no_cache)
  obtain r w2 where ex: "exchange env url ?opts w = (r, w2)"
    by (cases "exchange env url ?opts w")
  from exchange_events [of env url ?opts w] ex
  have w2: "filter is_cache_event (events w2) = filter is_cache_event (events w)" by auto
  show ?thesis
  proof (cases r)
    case (Inl err)
    with lookup ex w2 show ?thesis by (simp add: Download_def)
  next
    case (Inr resp)
    with lookup ex w2 classify_no_cache_events [OF assms, of env resp w2]
    show ?thesis by (simp add: Download_def)
  qed
qed

lemma Sprintf_d_404: "Sprintf_d 404 = ''404''"
  by code_simp

lemmas fake_exchange_defs =
  obtains_response_def cache_lookup_def exchange_def fake_env_def apply_options_def
  DefaultDownloadOptions_def plain_NewRequest_def reply_def sent_request_def

subsection \<open>Bad status without error factory\<close>

text \<open>
  Claim C1. Whenever the call has obtained a response whose status code is below 200 or
  at least 400, no \<open>GenError\<close> is configured and \<open>IgnoreStatusCode\<close> is unset,
  \<open>Download\<close> returns no body and the \<open>BadStatusError\<close> of exactly that status code (having
  closed the response body), and the message of that error is the code in decimal, a space,
  and the status text of the code.
\<close>

theorem Download_bad_status:
  assumes "obtains_response env w url os resp w2"
    and "resp_StatusCode resp < 200 \<or> 400 \<le> resp_StatusCode resp"
    and "GenError (apply_options os) = None"
    and "\<not> IgnoreStatusCode (apply_options os)"
  shows "Download env w url os
           = (Inl (BadStatusError (resp_StatusCode resp)), Close (resp_Body resp) w2)
       \<and> BadStatusError_Error env (resp_StatusCode resp)
           = Sprintf_d (resp_StatusCode resp) @ '' '' @ StatusText env (resp_StatusCode resp)"
  using assms
  by (simp add: Download_obtained classify_def BadStatus_def BadStatusError_Error_def)

theorem Download_bad_status_witness:
  "Download (fake_env (reply 404 ''text/plain'' (ResponseBody 1 ''gone'' None)))
       fresh_world ''https://x/w'' ([] :: unit DownloadOption list)
     = (Inl (BadStatusError 404),
        emit (CloseBody 1) (emit (ClientDo DefaultClient sent_request) fresh_world))
   \<and> BadStatusError_Error
        (fake_env (reply 404 ''text/plain'' (ResponseBody 1 ''gone'' None))
           :: (string \<rightharpoonup> string \<times> Duration, unit) env) 404
     = ''404 Not Found''"
  using Download_bad_status
    [of "fake_env (reply 404 ''text/plain'' (ResponseBody 1 ''gone'' None))"
        fresh_world "''https://x/w''" "[] :: unit DownloadOption list"
        "reply 404 ''text/plain'' (ResponseBody 1 ''gone'' None)"
        "emit (ClientDo DefaultClient sent_request) fresh_world"]
    Sprintf_d_404
  by (simp add: fake_exchange_defs some_StatusText_def)

subsection \<open>The error factory of WithErrorType\<close>

text \<open>
  Claim C3. For every structured error type (every decoder \<open>decode\<close>), \<open>WithErrorType\<close>
  installs an error factory that returns the decoded value as the failure when decoding
  the body succeeds and the \<open>BadStatusError\<close> of the status code when decoding fails, so
  never the decoder's own error. When \<open>Download\<close> has a bad-status response whose media
  type is \<open>application/json\<close>, that value is the failure it returns, after closing the body.
\<close>

theorem WithErrorType_fallback:
  "(\<exists>gen. GenError (WithErrorType decode opts) = Some gen \<and>
      (\<forall>r code. (\<forall>v. decode r = Inr v \<longrightarrow> gen r code = StructuredError v) \<and>
                (\<forall>err. decode r = Inl err \<longrightarrow> gen r code = BadStatusError code)))
   \<and> (obtains_response env w url (os @ [WithErrorType decode]) resp w2 \<longrightarrow>
       (resp_StatusCode resp < 200 \<or> 400 \<le> resp_StatusCode resp) \<longrightarrow>
       matchContentType env resp ''application/json'' \<longrightarrow>
       Download env w url (os @ [WithErrorType decode])
         = (Inl (case decode (resp_Body resp) of
                   Inl err \<Rightarrow> BadStatusError (resp_StatusCode resp)
                 | Inr v \<Rightarrow> StructuredError v),
            Close (resp_Body resp) w2))"
proof (intro conjI impI)
  show "\<exists>gen. GenError (WithErrorType decode opts) = Some gen \<and>
      (\<forall>r code. (\<forall>v. decode r = Inr v \<longrightarrow> gen r code = StructuredError v) \<and>
                (\<forall>err. decode r = Inl err \<longrightarrow> gen r code = BadStatusError code))"
    by (auto simp: WithErrorType_def BadStatus_def)
next
  assume ob: "obtains_response env w url (os @ [WithErrorType decode]) resp w2"
    and bad: "resp_StatusCode resp < 200 \<or> 400 \<le> resp_StatusCode resp"
    and json: "matchContentType env resp ''application/json''"
  have "Download env w url (os @ [WithErrorType decode])
          = classify env (WithErrorType decode (apply_options os)) resp w2"
    using Download_obtained [OF ob] by (simp add: apply_options_snoc)
  also have "\<dots> = (Inl (case decode (resp_Body resp) of
                   Inl err \<Rightarrow> BadStatusError (resp_StatusCode resp)
                 | Inr v \<Rightarrow> StructuredError v),
            Close (resp_Body resp) w2)"
    using bad json
    by (auto simp: classify_def WithErrorType_def BadStatus_def Let_def split: sum.splits)
  finally show "Download env w url (os @ [WithErrorType decode])
         = (Inl (case decode (resp_Body resp) of
                   Inl err \<Rightarrow> BadStatusError (resp_StatusCode resp)
                 | Inr v \<Rightarrow> StructuredError v),
            Close (resp_Body resp) w2)" .
qed

theorem WithErrorType_fallback_witness:
  "Download (fake_env (reply 500 ''application/json; charset=utf-8'' (ResponseBody 1 ''7'' None)))
       fresh_world ''https://x/w'' [WithErrorType seven_decoder]
     = (Inl (StructuredError 7),
        emit (CloseBody 1) (emit (ClientDo DefaultClient sent_request) fresh_world))
   \<and> Download (fake_env (reply 500 ''application/json; charset=utf-8'' (ResponseBody 2 ''{'' None)))
       fresh_world ''https://x/w'' [WithErrorType (seven_decoder :: (nat, nat) decoder)]
     = (Inl (BadStatusError 500),
        emit (CloseBody 2) (emit (ClientDo DefaultClient sent_request) fresh_world))"
  using WithErrorType_fallback
    [of "seven_decoder :: (nat, nat) decoder" DefaultDownloadOptions
        "fake_env (reply 500 ''application/json; charset=utf-8'' (ResponseBody 1 ''7'' None))"
        fresh_world "''https://x/w''" "[]"
        "reply 500 ''application/json; charset=utf-8'' (ResponseBody 1 ''7'' None)"
        "emit (ClientDo DefaultClient sent_request) fresh_world"]
    WithErrorType_fallback
    [of "seven_decoder :: (nat, nat) decoder" DefaultDownloadOptions
        "fake_env (reply 500 ''application/json; charset=utf-8'' (ResponseBody 2 ''{'' None))"
        fresh_world "''https://x/w''" "[]"
        "reply 500 ''application/json; charset=utf-8'' (ResponseBody 2 ''{'' None)"
        "emit (ClientDo DefaultClient sent_request) fresh_world"]
  by (simp add: fake_exchange_defs WithErrorType_def matchContentType_def Header_Get_def
        cut_parameters_def seven_decoder_def)

subsection \<open>Header options\<close>

lemma Header_Values_Add:
  "Header_Values canon (Header_Add canon h key v) key = Header_Values canon h key @ [v]"
  by (simp add: Header_Values_def Header_Add_def)

lemma Header_Values_foldl_Add:
  "Header_Values canon (foldl (\<lambda>h v. Header_Add canon h key v) h vs) key
     = Header_Values canon h key @ vs"
  by (induction vs arbitrary: h) (simp_all add: Header_Values_Add)

lemma Header_Values_WithHeader:
  "Header_Values canon (Header (WithHeader canon key value0 values opts)) key = value0 # values"
  by (simp add: WithHeader_def Header_Values_foldl_Add) (simp add: Header_Values_def Header_Set_def)

text \<open>
  Claim C5, amended. The package has one header option, \<open>WithHeader(key, value0, values...)\<close>.
  Whatever the options held before, after one call the values of \<open>key\<close> are exactly
  \<open>value0\<close> followed by \<open>values\<close>: the first value overwrites, the further values of the
  same call append. So \<open>WithHeader("X", "a", "b")\<close> yields \<open>["a", "b"]\<close>,
  \<open>WithHeader("X", "a")\<close> then \<open>WithHeader("X", "c")\<close> yields \<open>["c"]\<close>, and
  \<open>WithHeader("X", "a")\<close> then \<open>WithHeader("X", "b")\<close> yields \<open>["b"]\<close>: across calls the
  later call overwrites.
\<close>

theorem WithHeader_composition:
  "Header_Values canon (Header (WithHeader canon key value0 values opts)) key = value0 # values
   \<and> Header_Values canon (Header (apply_options [WithHeader canon ''X'' ''a'' [''b'']])) ''X''
       = [''a'', ''b'']
   \<and> Header_Values canon (Header (apply_options [WithHeader canon ''X'' ''a'' [], WithHeader canon ''X'' ''c'' []])) ''X''
       = [''c'']
   \<and> Header_Values canon (Header (apply_options [WithHeader canon ''X'' ''a'' [], WithHeader canon ''X'' ''b'' []])) ''X''
       = [''b'']"
  by (simp add: apply_options_def Header_Values_WithHeader)

text \<open>
  Claim C5 as stated fails: values do not append across calls. Setting \<open>X\<close> to \<open>a\<close> and
  then adding \<open>b\<close> under \<open>X\<close> with a second call does not yield \<open>["a", "b"]\<close>.
\<close>

theorem WithHeader_twice_counterexample:
  "Header_Values id (Header (apply_options
       [WithHeader id ''X'' ''a'' [], WithHeader id ''X'' ''b'' []] :: unit DownloadOptions)) ''X''
     \<noteq> [''a'', ''b'']"
  by (simp add: apply_options_def Header_Values_WithHeader)

subsection \<open>Context and client are never nil\<close>

lemma option_of_keeps_Ctx: "Ctx d \<noteq> None \<Longrightarrow> Ctx (option_of canon m d) \<noteq> None"
  by (cases m)
     (simp_all add: WithContext_def WithClient_def WithCache_def WithErrorType_def WithMethod_def
        WithBody_def WithHeader_def WithFakeUserAgent_def WithAcceptContentType_def
        WithIgnoreStatusCode_def split: option.splits)

lemma option_of_keeps_Client: "Client d \<noteq> None \<Longrightarrow> Client (option_of canon m d) \<noteq> None"
  by (cases m)
     (simp_all add: WithContext_def WithClient_def WithCache_def WithErrorType_def WithMethod_def
        WithBody_def WithHeader_def WithFakeUserAgent_def WithAcceptContentType_def
        WithIgnoreStatusCode_def split: option.splits)

lemma apply_options_exported_non_nil:
  "Ctx (apply_options (map (option_of canon) calls)) \<noteq> None
   \<and> Client (apply_options (map (option_of canon) calls)) \<noteq> None"
proof (induction calls rule: rev_induct)
  case Nil
  show ?case by (simp add: apply_options_def DefaultDownloadOptions_def)
next
  case (snoc m calls)
  then show ?case
    by (simp add: apply_options_snoc option_of_keeps_Ctx option_of_keeps_Client)
qed

text \<open>
  Claim C9. For every list of calls of the exported option constructors, applied in order
  to the defaults, the resulting options have a non-nil context and a non-nil client; a
  nil context or a nil client passed as the last option is replaced by
  \<open>context.Background()\<close> and \<open>http.DefaultClient\<close>.
\<close>

theorem options_never_nil:
  "Ctx (apply_options (map (option_of canon) calls)) \<noteq> None
   \<and> Client (apply_options (map (option_of canon) calls)) \<noteq> None
   \<and> Ctx (apply_options (map (option_of canon) (calls @ [Call_WithContext None]))) = Some Background
   \<and> Client (apply_options (map (option_of canon) (calls @ [Call_WithClient None]))) = Some DefaultClient"
  using apply_options_exported_non_nil [of canon calls]
  by (simp add: apply_options_snoc WithContext_def WithClient_def)

subsection \<open>Content type matching\<close>

text \<open>
  Claim C7. With a response in hand, let \<open>observed\<close> be the value of its \<open>Content-Type\<close>
  header and \<open>parsed\<close> the media type that \<open>mime.ParseMediaType\<close> returns for it.
  \<^item> \<open>matchContentType\<close> holds for a configured type exactly when that type equals
    \<open>parsed\<close>, as strings.
  \<^item> On a bad status with an error factory, the factory branch is taken exactly when
    \<open>parsed\<close> is \<open>application/json\<close>; otherwise the call goes on as if no factory were
    configured.
  \<^item> Where the status check lets the response through, a required type equal to \<open>parsed\<close>
    (so also a header that differs from it in parameters only) never gives a content type
    error, and a required type different from \<open>parsed\<close> closes the body and fails with
    \<open>"bad content-type: "\<close> followed by \<open>observed\<close>.
  \<^item> A required type different from \<open>parsed\<close> makes the call fail on every path.
\<close>

theorem content_type_matching:
  assumes ob: "obtains_response env w url os resp w2"
    and opts: "opts = apply_options os"
    and observed: "observed = Header_Get (CanonicalMIMEHeaderKey env) (resp_Header resp) ''Content-Type''"
    and parsed: "parsed = ParseMediaType env observed"
    and code: "code = resp_StatusCode resp"
  shows "(\<forall>contentType. matchContentType env resp contentType \<longleftrightarrow> contentType = parsed)
       \<and> (\<forall>gen. (code < 200 \<or> 400 \<le> code) \<longrightarrow> GenError opts = Some gen \<longrightarrow>
             (if parsed = ''application/json''
              then Download env w url os = (Inl (gen (resp_Body resp) code), Close (resp_Body resp) w2)
              else Download env w url os = classify env (opts\<lparr>GenError := None\<rparr>) resp w2))
       \<and> ((200 \<le> code \<and> code < 400)
            \<or> (IgnoreStatusCode opts \<and> (GenError opts = None \<or> parsed \<noteq> ''application/json'')) \<longrightarrow>
             (if AcceptContentType opts = [] \<or> AcceptContentType opts = parsed
              then \<forall>s. fst (Download env w url os) \<noteq> Inl (ErrorString s)
              else Download env w url os
                     = (Inl (ErrorString (''bad content-type: '' @ observed)), Close (resp_Body resp) w2)))
       \<and> (AcceptContentType opts \<noteq> [] \<and> AcceptContentType opts \<noteq> parsed \<longrightarrow>
             (\<exists>err. fst (Download env w url os) = Inl err))"
proof -
  have match: "matchContentType env resp contentType \<longleftrightarrow> contentType = parsed" for contentType
    by (simp add: matchContentType_def parsed observed)
  have dl: "Download env w url os = classify env opts resp w2"
    using Download_obtained [OF ob] opts by simp
  have factory: "if parsed = ''application/json''
              then Download env w url os = (Inl (gen (resp_Body resp) code), Close (resp_Body resp) w2)
              else Download env w url os = classify env (opts\<lparr>GenError := None\<rparr>) resp w2"
    if "code < 200 \<or> 400 \<le> code" "GenError opts = Some gen" for gen
  proof (cases "parsed = ''application/json''")
    case True
    then show ?thesis
      using that code by (simp add: dl classify_def match Let_def)
  next
    case False
    then have "\<not> matchContentType env resp ''application/json''"
      by (auto simp: match)
    then show ?thesis
      using False dl classify_without_factory by simp
  qed
  have enforce: "if AcceptContentType opts = [] \<or> AcceptContentType opts = parsed
              then \<forall>s. fst (Download env w url os) \<noteq> Inl (ErrorString s)
              else Download env w url os
                     = (Inl (ErrorString (''bad content-type: '' @ observed)), Close (resp_Body resp) w2)"
    if "(200 \<le> code \<and> code < 400)
            \<or> (IgnoreStatusCode opts \<and> (GenError opts = None \<or> parsed \<noteq> ''application/json''))"
  proof -
    have "(200 \<le> resp_StatusCode resp \<and> resp_StatusCode resp < 400)
            \<or> (IgnoreStatusCode opts \<and>
                (GenError opts = None \<or> \<not> matchContentType env resp ''application/json''))"
      using that code match by auto
    from classify_let_through [OF this] show ?thesis
      by (simp add: dl match write_through_not_ErrorString observed)
  qed
  have fails: "\<exists>err. fst (Download env w url os) = Inl err"
    if "AcceptContentType opts \<noteq> [] \<and> AcceptContentType opts \<noteq> parsed"
    using classify_mismatch_fails [of opts env resp w2] that by (simp add: dl match)
  from match factory enforce fails show ?thesis by blast
qed

lemma plain_json_obtained:
  "obtains_response (fake_env (reply 200 ''text/plain'' (ResponseBody 2 ''7'' None)))
       fresh_world ''https://x/w'' [WithAcceptContentType ''application/json'' :: unit DownloadOption]
       (reply 200 ''text/plain'' (ResponseBody 2 ''7'' None))
       (emit (ClientDo DefaultClient sent_request) fresh_world)"
  by (simp add: fake_exchange_defs WithAcceptContentType_def)

lemma charset_json_obtained:
  "obtains_response (fake_env (reply 200 ''application/json; charset=utf-8'' (ResponseBody 1 ''7'' None)))
       fresh_world ''https://x/w'' [WithAcceptContentType ''application/json'' :: unit DownloadOption]
       (reply 200 ''application/json; charset=utf-8'' (ResponseBody 1 ''7'' None))
       (emit (ClientDo DefaultClient sent_request) fresh_world)"
  by (simp add: fake_exchange_defs WithAcceptContentType_def)

lemmas fake_reply_defs =
  fake_env_def reply_def apply_options_def DefaultDownloadOptions_def Header_Get_def
  cut_parameters_def

theorem content_type_matching_witness:
  "(\<forall>s. fst (Download (fake_env (reply 200 ''application/json; charset=utf-8'' (ResponseBody 1 ''7'' None)))
       fresh_world ''https://x/w'' [WithAcceptContentType ''application/json'' :: unit DownloadOption])
     \<noteq> Inl (ErrorString s))
   \<and> Download (fake_env (reply 200 ''text/plain'' (ResponseBody 2 ''7'' None)))
       fresh_world ''https://x/w'' [WithAcceptContentType ''application/json'' :: unit DownloadOption]
     = (Inl (ErrorString ''bad content-type: text/plain''),
        emit (CloseBody 2) (emit (ClientDo DefaultClient sent_request) fresh_world))"
proof
  show "\<forall>s. fst (Download (fake_env (reply 200 ''application/json; charset=utf-8'' (ResponseBody 1 ''7'' None)))
       fresh_world ''https://x/w'' [WithAcceptContentType ''application/json'' :: unit DownloadOption])
     \<noteq> Inl (ErrorString s)"
    using content_type_matching [OF charset_json_obtained refl refl refl refl, THEN conjunct2, THEN conjunct2, THEN conjunct1]
    by (simp add: fake_reply_defs WithAcceptContentType_def)
  show "Download (fake_env (reply 200 ''text/plain'' (ResponseBody 2 ''7'' None)))
       fresh_world ''https://x/w'' [WithAcceptContentType ''application/json'' :: unit DownloadOption]
     = (Inl (ErrorString ''bad content-type: text/plain''),
        emit (CloseBody 2) (emit (ClientDo DefaultClient sent_request) fresh_world))"
    using content_type_matching [OF plain_json_obtained refl refl refl refl, THEN conjunct2, THEN conjunct2, THEN conjunct1]
    by (simp add: fake_reply_defs WithAcceptContentType_def)
qed

subsection \<open>Closing the response body\<close>

text \<open>
  Claim C2 says that the response body is closed on every failure path and, when a cache
  is configured, on success as well. The failure paths do close it (lemma
  \<open>classify_failure_closes\<close>). The success path with a cache does not: it reads the body
  to its end, stores the bytes, returns an in-memory stream over them and drops the
  original stream without a call of \<open>Close\<close>. On a cache miss answered with status 200
  the log of the call holds the lookup, the exchange and the store, and no \<open>CloseBody\<close>.
\<close>

theorem Download_cached_success_leaves_body_open:
  "fst (Download (fake_env (reply 200 ''text/plain'' (ResponseBody 1 ''hello'' None)))
          fresh_world ''https://x/w'' [WithCache (Some 0) ''k'' 60 :: unit DownloadOption])
     = Inr (NopCloser ''hello'')
   \<and> events (snd (Download (fake_env (reply 200 ''text/plain'' (ResponseBody 1 ''hello'' None)))
          fresh_world ''https://x/w'' [WithCache (Some 0) ''k'' 60 :: unit DownloadOption]))
     = [CacheGet 0 ''k'', ClientDo DefaultClient sent_request, CacheSet 0 ''k'' ''hello'' 60]
   \<and> CloseBody 1 \<notin> set (events (snd (Download (fake_env (reply 200 ''text/plain'' (ResponseBody 1 ''hello'' None)))
          fresh_world ''https://x/w'' [WithCache (Some 0) ''k'' 60 :: unit DownloadOption])))"
  by (simp add: Download_def classify_def write_through_def fake_exchange_defs WithCache_def
        memory_Get_def memory_Set_def fresh_world_def emit_def)

subsection \<open>Ignoring the status code\<close>

text \<open>
  Claim C6 as stated fails: with the flag set, no error factory and no required content
  type, a call with a cache configured returns an error, and no body, when reading the
  response body for the cache breaks off.
\<close>

theorem ignore_status_read_error_counterexample:
  "IgnoreStatusCode (apply_options [WithIgnoreStatusCode, WithCache (Some 0) ''k'' 60 :: unit DownloadOption])
   \<and> GenError (apply_options [WithIgnoreStatusCode, WithCache (Some 0) ''k'' 60 :: unit DownloadOption]) = None
   \<and> AcceptContentType (apply_options [WithIgnoreStatusCode, WithCache (Some 0) ''k'' 60 :: unit DownloadOption]) = []
   \<and> Download (fake_env (reply 500 ''text/plain'' (ResponseBody 1 ''par'' (Some ''unexpected EOF''))))
          fresh_world ''https://x/w'' [WithIgnoreStatusCode, WithCache (Some 0) ''k'' 60 :: unit DownloadOption]
     = (Inl (ExternalError ''unexpected EOF''),
        emit (CloseBody 1) (emit (ClientDo DefaultClient sent_request) (emit (CacheGet 0 ''k'') fresh_world)))"
  by (simp add: Download_def classify_def write_through_def fake_exchange_defs WithCache_def
        WithIgnoreStatusCode_def memory_Get_def fresh_world_def emit_def)

text \<open>
  Claim C6, amended. With \<open>IgnoreStatusCode\<close> set, no \<open>GenError\<close> and the required
  content type empty or matched, for every status code of the response: without a cache
  \<open>Download\<close> returns the response body itself and no error; with a cache, when the
  body can be read to its end, it returns an in-memory stream over the body's bytes and no
  error; with a cache, when reading the body fails, it closes the body and returns the
  read error.
\<close>

theorem Download_ignore_status:
  assumes ob: "obtains_response env w url os resp w2"
    and ign: "IgnoreStatusCode (apply_options os)"
    and gen: "GenError (apply_options os) = None"
    and acc: "AcceptContentType (apply_options os) = []
         \<or> matchContentType env resp (AcceptContentType (apply_options os))"
  shows "(Cache (apply_options os) = None \<longrightarrow> Download env w url os = (Inr (resp_Body resp), w2))
       \<and> (\<forall>c content. Cache (apply_options os) = Some c \<longrightarrow> ReadAll (resp_Body resp) = (content, None) \<longrightarrow>
            fst (Download env w url os) = Inr (NopCloser content))
       \<and> (\<forall>c content msg. Cache (apply_options os) = Some c \<longrightarrow> ReadAll (resp_Body resp) = (content, Some msg) \<longrightarrow>
            Download env w url os = (Inl (ExternalError msg), Close (resp_Body resp) w2))"
proof -
  have "Download env w url os = write_through env (apply_options os) (resp_Body resp) w2"
    using Download_obtained [OF ob] classify_let_through [of resp "apply_options os" env w2] ign gen acc
    by auto
  then show ?thesis
    by (simp add: write_through_no_cache write_through_stored write_through_read_error)
qed

lemma ignore_500_obtained:
  "obtains_response (fake_env (reply 500 ''text/plain'' (ResponseBody 1 ''oops'' None)))
       fresh_world ''https://x/w'' [WithIgnoreStatusCode :: unit DownloadOption]
       (reply 500 ''text/plain'' (ResponseBody 1 ''oops'' None))
       (emit (ClientDo DefaultClient sent_request) fresh_world)"
  by (simp add: fake_exchange_defs WithIgnoreStatusCode_def)

theorem Download_ignore_status_witness:
  "Download (fake_env (reply 500 ''text/plain'' (ResponseBody 1 ''oops'' None)))
       fresh_world ''https://x/w'' [WithIgnoreStatusCode :: unit DownloadOption]
     = (Inr (ResponseBody 1 ''oops'' None), emit (ClientDo DefaultClient sent_request) fresh_world)"
  using Download_ignore_status [OF ignore_500_obtained, THEN conjunct1]
  by (simp add: apply_options_def DefaultDownloadOptions_def WithIgnoreStatusCode_def reply_def)

subsection \<open>The JSON entry point\<close>

text \<open>
  Claim C8. For every URL, option list and target type (decoder), the result of
  \<open>DownloadJSON\<close> is that of the specification's wording: \<open>Download\<close> with
  \<open>WithAcceptContentType("application/json")\<close> appended after the caller's options (so
  the required type is \<open>application/json\<close> whatever the caller configured), then the JSON
  decoding of the body. A failure of \<open>Download\<close> is returned as it is; on success the body
  is decoded and closed, and the result is the decode error or the decoded value.
\<close>

theorem DownloadJSON_refines:
  "fst (DownloadJSON decode env w url os) = retrieveJSON_spec decode env w url os
   \<and> AcceptContentType (apply_options (os @ [WithAcceptContentType ''application/json''])) = ''application/json''
   \<and> (\<forall>err w1. Download env w url (os @ [WithAcceptContentType ''application/json'']) = (Inl err, w1) \<longrightarrow>
         DownloadJSON decode env w url os = (Inl err, w1))
   \<and> (\<forall>body w1 err. Download env w url (os @ [WithAcceptContentType ''application/json'']) = (Inr body, w1) \<longrightarrow>
         decode body = Inl err \<longrightarrow> DownloadJSON decode env w url os = (Inl err, Close body w1))
   \<and> (\<forall>body w1 result. Download env w url (os @ [WithAcceptContentType ''application/json'']) = (Inr body, w1) \<longrightarrow>
         decode body = Inr result \<longrightarrow> DownloadJSON decode env w url os = (Inr result, Close body w1))"
proof -
  obtain r w1 where d: "Download env w url (os @ [WithAcceptContentType ''application/json'']) = (r, w1)"
    by (cases "Download env w url (os @ [WithAcceptContentType ''application/json''])")
  have "fst (DownloadJSON decode env w url os) = retrieveJSON_spec decode env w url os"
    by (cases r; cases "decode (projr r)")
       (simp_all add: DownloadJSON_def retrieveJSON_spec_def d)
  moreover have "AcceptContentType (apply_options (os @ [WithAcceptContentType ''application/json'']))
                   = ''application/json''"
    by (simp add: apply_options_snoc WithAcceptContentType_def)
  ultimately show ?thesis
    by (simp add: DownloadJSON_def)
qed

lemma json_200:
  "Download (fake_env (reply 200 ''application/json'' (ResponseBody 1 ''7'' None)))
       fresh_world ''https://x/w'' ([] @ [WithAcceptContentType ''application/json'' :: unit DownloadOption])
   = (Inr (ResponseBody 1 ''7'' None), emit (ClientDo DefaultClient sent_request) fresh_world)"
  by (simp add: Download_def classify_def write_through_def fake_exchange_defs
        WithAcceptContentType_def matchContentType_def Header_Get_def cut_parameters_def)

lemma json_500:
  "Download (fake_env (reply 500 ''application/json'' (ResponseBody 2 ''{'' None)))
       fresh_world ''https://x/w'' ([] @ [WithAcceptContentType ''application/json'' :: unit DownloadOption])
   = (Inl (BadStatusError 500), emit (CloseBody 2) (emit (ClientDo DefaultClient sent_request) fresh_world))"
  by (simp add: Download_def classify_def fake_exchange_defs WithAcceptContentType_def
        matchContentType_def Header_Get_def cut_parameters_def BadStatus_def)

theorem DownloadJSON_refines_witness:
  "DownloadJSON seven_decoder (fake_env (reply 200 ''application/json'' (ResponseBody 1 ''7'' None)))
       fresh_world ''https://x/w'' ([] :: unit DownloadOption list)
     = (Inr 7, emit (CloseBody 1) (emit (ClientDo DefaultClient sent_request) fresh_world))
   \<and> DownloadJSON (seven_decoder :: (unit, nat) decoder)
        (fake_env (reply 500 ''application/json'' (ResponseBody 2 ''{'' None)))
       fresh_world ''https://x/w'' ([] :: unit DownloadOption list)
     = (Inl (BadStatusError 500), emit (CloseBody 2) (emit (ClientDo DefaultClient sent_request) fresh_world))"
proof
  have "seven_decoder (ResponseBody 1 ''7'' None) = (Inr 7 :: unit error + nat)"
    by (simp add: seven_decoder_def)
  with json_200 show "DownloadJSON seven_decoder (fake_env (reply 200 ''application/json'' (ResponseBody 1 ''7'' None)))
       fresh_world ''https://x/w'' ([] :: unit DownloadOption list)
     = (Inr 7, emit (CloseBody 1) (emit (ClientDo DefaultClient sent_request) fresh_world))"
    using DownloadJSON_refines
      [of "seven_decoder :: (unit, nat) decoder"
        "fake_env (reply 200 ''application/json'' (ResponseBody 1 ''7'' None))"
        fresh_world "''https://x/w''" "[]"]
    by simp
  from json_500 show "DownloadJSON (seven_decoder :: (unit, nat) decoder)
        (fake_env (reply 500 ''application/json'' (ResponseBody 2 ''{'' None)))
       fresh_world ''https://x/w'' ([] :: unit DownloadOption list)
     = (Inl (BadStatusError 500), emit (CloseBody 2) (emit (ClientDo DefaultClient sent_request) fresh_world))"
    using DownloadJSON_refines
      [of "seven_decoder :: (unit, nat) decoder"
        "fake_env (reply 500 ''application/json'' (ResponseBody 2 ''{'' None))"
        fresh_world "''https://x/w''" "[]"]
    by simp
qed

subsection \<open>The cache round trip\<close>

text \<open>
  Claim C4. Take a call with a cache configured whose lookup misses and which succeeds.
  Then it made one network exchange, it returned an in-memory stream over some bytes,
  it wrote exactly these bytes to the cache under the configured key and time to live
  (the log of the call is the lookup, the exchange and the store, and the state of the
  cache is that after \<open>Set\<close>). And as long as the cache returns these bytes for the key,
  every later call with the same cache and key, whatever its URL and its other options
  (status handling, required content type, error factory), returns a stream over the same
  bytes, and its only effect is the lookup: no network exchange takes place.
\<close>

theorem cache_round_trip:
  assumes cfg: "Cache (apply_options os) = Some c"
    and key: "key = CacheKey (apply_options os)"
    and ttl: "ttl = CacheTTL (apply_options os)"
    and miss: "fst (cache_lookup env (apply_options os) w) = None"
    and first: "Download env w url os = (Inr body, w1)"
  shows "\<exists>cl req content.
           body = NopCloser content
         \<and> events w1 = events w @ [CacheGet c key, ClientDo cl req, CacheSet c key content ttl]
         \<and> caches w1 = (caches w)(c := cache_Set env (caches w c) key content ttl)
         \<and> (\<forall>url' os'. Cache (apply_options os') = Some c \<longrightarrow> CacheKey (apply_options os') = key \<longrightarrow>
               cache_Get env (caches w1 c) key = Inr content \<longrightarrow>
               Download env w1 url' os' = (Inr (NopCloser content), emit (CacheGet c key) w1))"
proof -
  from Download_success_after_miss [OF cfg miss first]
  obtain cl req content where body: "body = NopCloser content"
    and w1: "w1 = emit (CacheSet c key content ttl)
                  ((emit (ClientDo cl req) (emit (CacheGet c key) w))
                     \<lparr>caches := (caches w)(c := cache_Set env (caches w c) key content ttl)\<rparr>)"
    unfolding key ttl by blast
  have ev: "events w1 = events w @ [CacheGet c key, ClientDo cl req, CacheSet c key content ttl]"
    by (simp add: w1 emit_def)
  have ca: "caches w1 = (caches w)(c := cache_Set env (caches w c) key content ttl)"
    by (simp add: w1 emit_def)
  have second: "Download env w1 url' os' = (Inr (NopCloser content), emit (CacheGet c key) w1)"
    if "Cache (apply_options os') = Some c" "CacheKey (apply_options os') = key"
       "cache_Get env (caches w1 c) key = Inr content" for url' os'
    using Download_hit [of os' c env w1 content url'] that by simp
  from body ev ca second show ?thesis by blast
qed

lemma hello_first_call:
  "Download (fake_env (reply 200 ''text/plain'' (ResponseBody 1 ''hello'' None)))
       fresh_world ''https://x/w'' [WithCache (Some 0) ''k'' 60 :: unit DownloadOption]
     = (Inr (NopCloser ''hello''),
        snd (Download (fake_env (reply 200 ''text/plain'' (ResponseBody 1 ''hello'' None)))
               fresh_world ''https://x/w'' [WithCache (Some 0) ''k'' 60 :: unit DownloadOption]))"
  by (simp add: prod_eq_iff Download_def classify_def write_through_def fake_exchange_defs
        WithCache_def memory_Get_def fresh_world_def)

theorem cache_round_trip_witness:
  "fst (Download (fake_env (reply 200 ''text/plain'' (ResponseBody 1 ''hello'' None)))
          fresh_world ''https://x/w'' [WithCache (Some 0) ''k'' 60 :: unit DownloadOption])
     = Inr (NopCloser ''hello'')
   \<and> Download (fake_env (reply 200 ''text/plain'' (ResponseBody 1 ''hello'' None)))
        (snd (Download (fake_env (reply 200 ''text/plain'' (ResponseBody 1 ''hello'' None)))
               fresh_world ''https://x/w'' [WithCache (Some 0) ''k'' 60 :: unit DownloadOption]))
        ''https://x/w'' [WithCache (Some 0) ''k'' 60 :: unit DownloadOption]
     = (Inr (NopCloser ''hello''),
        emit (CacheGet 0 ''k'')
          (snd (Download (fake_env (reply 200 ''text/plain'' (ResponseBody 1 ''hello'' None)))
               fresh_world ''https://x/w'' [WithCache (Some 0) ''k'' 60 :: unit DownloadOption])))"
proof -
  let ?env = "fake_env (reply 200 ''text/plain'' (ResponseBody 1 ''hello'' None))
                :: (string \<rightharpoonup> string \<times> Duration, unit) env"
  let ?os = "[WithCache (Some 0) ''k'' 60 :: unit DownloadOption]"
  let ?w1 = "snd (Download ?env fresh_world ''https://x/w'' ?os)"
  have cfg: "Cache (apply_options ?os) = Some 0"
    by (simp add: apply_options_def WithCache_def)
  have key: "CacheKey (apply_options ?os) = ''k''"
    by (simp add: apply_options_def WithCache_def)
  have miss: "fst (cache_lookup ?env (apply_options ?os) fresh_world) = None"
    by (simp add: cache_lookup_def cfg key fake_env_def memory_Get_def fresh_world_def)
  from cache_round_trip [OF cfg refl refl miss hello_first_call]
  obtain content where c: "NopCloser ''hello'' = NopCloser content"
    and ca: "caches ?w1 = (caches fresh_world)
               (0 := cache_Set ?env (caches fresh_world 0) (CacheKey (apply_options ?os)) content
                       (CacheTTL (apply_options ?os)))"
    and second: "\<And>url' os'. Cache (apply_options os') = Some 0 \<Longrightarrow>
               CacheKey (apply_options os') = CacheKey (apply_options ?os) \<Longrightarrow>
               cache_Get ?env (caches ?w1 0) (CacheKey (apply_options ?os)) = Inr content \<Longrightarrow>
               Download ?env ?w1 url' os'
                 = (Inr (NopCloser content), emit (CacheGet 0 (CacheKey (apply_options ?os))) ?w1)"
    by blast
  from c have content: "content = ''hello''" by simp
  have present: "cache_Get ?env (caches ?w1 0) (CacheKey (apply_options ?os)) = Inr content"
    unfolding ca by (simp add: fake_env_def memory_Get_def memory_Set_def)
  have "fst (Download ?env fresh_world ''https://x/w'' ?os) = Inr (NopCloser ''hello'')"
    by (subst hello_first_call) simp
  with second [OF cfg refl present] show ?thesis
    by (simp add: content key)
qed

subsection \<open>The cache gate\<close>

text \<open>
  Claim C10. \<open>WithCache\<close> stores the handle, the key and the time to live as given, and
  both cache steps of \<open>Download\<close> depend on the handle alone. With a non-nil handle the
  call starts with a lookup under the configured key, whatever the key is (the empty string
  too); a hit returns the cached content; after a miss, a successful call ends with a store
  of the returned bytes under that same key. With a nil handle the call makes no cache call
  at all.
\<close>

theorem cache_gate_by_handle_only:
  assumes opts: "opts = apply_options os" and key: "key = CacheKey opts"
  shows "(Cache (WithCache cache k ttl d) = cache \<and> CacheKey (WithCache cache k ttl d) = k
            \<and> CacheTTL (WithCache cache k ttl d) = ttl)
       \<and> (\<forall>c. Cache opts = Some c \<longrightarrow>
             (\<exists>es. events (snd (Download env w url os)) = events w @ CacheGet c key # es))
       \<and> (\<forall>c content. Cache opts = Some c \<longrightarrow> cache_Get env (caches w c) key = Inr content \<longrightarrow>
             Download env w url os = (Inr (NopCloser content), emit (CacheGet c key) w))
       \<and> (\<forall>c body w1. Cache opts = Some c \<longrightarrow> fst (cache_lookup env opts w) = None \<longrightarrow>
             Download env w url os = (Inr body, w1) \<longrightarrow>
             (\<exists>content. body = NopCloser content
                 \<and> last (events w1) = CacheSet c key content (CacheTTL opts)
                 \<and> caches w1 c = cache_Set env (caches w c) key content (CacheTTL opts)))
       \<and> (Cache opts = None \<longrightarrow>
             filter is_cache_event (events (snd (Download env w url os)))
               = filter is_cache_event (events w))"
proof -
  have with_cache: "Cache (WithCache cache k ttl d) = cache \<and> CacheKey (WithCache cache k ttl d) = k
            \<and> CacheTTL (WithCache cache k ttl d) = ttl"
    by (simp add: WithCache_def)
  have lookup: "\<exists>es. events (snd (Download env w url os)) = events w @ CacheGet c key # es"
    if "Cache opts = Some c" for c
  proof -
    have "events (snd (cache_lookup env opts w)) = events w @ [CacheGet c key]"
      using that by (simp add: cache_lookup_def key emit_def split: sum.splits)
    with Download_events_after_lookup [of env w url os] show ?thesis
      by (auto simp: opts)
  qed
  have hit: "Download env w url os = (Inr (NopCloser content), emit (CacheGet c key) w)"
    if "Cache opts = Some c" "cache_Get env (caches w c) key = Inr content" for c content
    using Download_hit [of os c env w content url] that by (simp add: opts key)
  have store: "\<exists>content. body = NopCloser content
                 \<and> last (events w1) = CacheSet c key content (CacheTTL opts)
                 \<and> caches w1 c = cache_Set env (caches w c) key content (CacheTTL opts)"
    if "Cache opts = Some c" "fst (cache_lookup env opts w) = None"
       "Download env w url os = (Inr body, w1)" for c body w1
    using Download_success_after_miss [of os c env w url body w1] that
    by (auto simp: opts key emit_def)
  have none: "filter is_cache_event (events (snd (Download env w url os)))
               = filter is_cache_event (events w)" if "Cache opts = None"
    using Download_no_cache_events [of os env w url] that by (simp add: opts)
  from with_cache lookup hit store none show ?thesis by blast
qed

lemma empty_key_first_call:
  "Download (fake_env (reply 200 ''text/plain'' (ResponseBody 1 ''hello'' None)))
       fresh_world ''https://x/w'' [WithCache (Some 0) [] 60 :: unit DownloadOption]
     = (Inr (NopCloser ''hello''),
        snd (Download (fake_env (reply 200 ''text/plain'' (ResponseBody 1 ''hello'' None)))
               fresh_world ''https://x/w'' [WithCache (Some 0) [] 60 :: unit DownloadOption]))"
  by (simp add: prod_eq_iff Download_def classify_def write_through_def fake_exchange_defs
        WithCache_def memory_Get_def fresh_world_def)

theorem cache_gate_by_handle_only_witness:
  "(\<exists>es. events (snd (Download (fake_env (reply 200 ''text/plain'' (ResponseBody 1 ''hello'' None)))
               fresh_world ''https://x/w'' [WithCache (Some 0) [] 60 :: unit DownloadOption]))
          = CacheGet 0 [] # es)
   \<and> last (events (snd (Download (fake_env (reply 200 ''text/plain'' (ResponseBody 1 ''hello'' None)))
               fresh_world ''https://x/w'' [WithCache (Some 0) [] 60 :: unit DownloadOption])))
       = CacheSet 0 [] ''hello'' 60
   \<and> caches (snd (Download (fake_env (reply 200 ''text/plain'' (ResponseBody 1 ''hello'' None)))
               fresh_world ''https://x/w'' [WithCache (Some 0) [] 60 :: unit DownloadOption])) 0 []
       = Some (''hello'', 60)"
proof -
  let ?env = "fake_env (reply 200 ''text/plain'' (ResponseBody 1 ''hello'' None))
                :: (string \<rightharpoonup> string \<times> Duration, unit) env"
  let ?os = "[WithCache (Some 0) [] 60 :: unit DownloadOption]"
  let ?w1 = "snd (Download ?env fresh_world ''https://x/w'' ?os)"
  note gate = cache_gate_by_handle_only
    [OF refl refl, of _ _ _ _ ?os ?env fresh_world "''https://x/w''", THEN conjunct2]
  have cfg: "Cache (apply_options ?os) = Some 0"
    by (simp add: apply_options_def WithCache_def)
  have key: "CacheKey (apply_options ?os) = []"
    by (simp add: apply_options_def WithCache_def)
  have ttl: "CacheTTL (apply_options ?os) = 60"
    by (simp add: apply_options_def WithCache_def)
  have miss: "fst (cache_lookup ?env (apply_options ?os) fresh_world) = None"
    by (simp add: cache_lookup_def cfg key fake_env_def memory_Get_def fresh_world_def)
  from gate cfg have "\<exists>es. events ?w1 = events fresh_world @ CacheGet 0 (CacheKey (apply_options ?os)) # es"
    by blast
  then have looked_up: "\<exists>es. events ?w1 = CacheGet 0 [] # es"
    by (simp add: key fresh_world_def)
  from gate cfg miss empty_key_first_call
  obtain content where c: "NopCloser ''hello'' = NopCloser content"
    and l: "last (events ?w1) = CacheSet 0 (CacheKey (apply_options ?os)) content (CacheTTL (apply_options ?os))"
    and ca: "caches ?w1 0 = cache_Set ?env (caches fresh_world 0) (CacheKey (apply_options ?os)) content
                       (CacheTTL (apply_options ?os))"
    by blast
  from c have content: "content = ''hello''" by simp
  have stored: "last (events ?w1) = CacheSet 0 [] ''hello'' 60"
    using l by (simp add: key ttl content)
  have kept: "caches ?w1 0 [] = Some (''hello'', 60)"
    unfolding ca by (simp add: key ttl content fake_env_def memory_Set_def)
  from looked_up stored kept show ?thesis by blast
qed

end
